theory Spec2Isabelle
  imports Main "HOL-Library.AList"
begin

text \<open>
  The plugin \<^verbatim>\<open>mdxSnippet\<close> of \<^verbatim>\<open>remark-mdx-snippets\<close>, embedded as its newest
  revision has it: the first module of \<^verbatim>\<open>src/unnamed/part_003\<close> (lines 1 to 278),
  which is the revision that \<^verbatim>\<open>test.js\<close> exercises (remote references, dispatch on
  the extension). Line numbers in the text are lines of that file. \<^verbatim>\<open>src/index.js\<close>
  is the revision before it: the same walk, the same test and warning for the file
  attribute, the same splice and the same \<^verbatim>\<open>catch\<close> callback, with the local markdown
  branch only.

  The libraries the plugin calls (\<^verbatim>\<open>unified\<close>, \<^verbatim>\<open>remark\<close>, \<^verbatim>\<open>to-vfile\<close>,
  \<^verbatim>\<open>unist-util-visit\<close>, \<^verbatim>\<open>node:path\<close>, \<^verbatim>\<open>fetch\<close>) are parameters of the model,
  collected in the record \<open>world\<close>.
\<close>

section \<open>JavaScript strings\<close>

text \<open>
  A string is the list of its code units, each below 256 (the Latin-1 range of
  Unicode). The characters that cannot be written inside a string literal are named
  here.
\<close>

definition dquote :: char where
  "dquote = CHR 0x22"

definition backslash :: char where
  "backslash = CHR 0x5C"

definition newline :: char where
  "newline = CHR 0x0A"

text \<open>
  \<^verbatim>\<open>String.prototype.lastIndexOf\<close> with a one-character needle: the index of the
  last occurrence, or \<open>-1\<close> when there is none.
\<close>

fun lastIndexOf :: "string \<Rightarrow> char \<Rightarrow> int" where
  "lastIndexOf [] c = -1"
| "lastIndexOf (x # xs) c =
     (let r = lastIndexOf xs c
      in if 0 \<le> r then r + 1 else if x = c then 0 else -1)"

text \<open>
  \<^verbatim>\<open>String.prototype.toLowerCase\<close>: the capital letters below 256 are \<open>A\<close> to
  \<open>Z\<close> (65 to 90) and the accented capitals from U+00C0 to U+00DE without the
  multiplication sign U+00D7; each has its small letter 32 places further on. Every
  other character below 256 is kept as it is.
\<close>

definition is_capital :: "nat \<Rightarrow> bool" where
  "is_capital k = ((65 \<le> k \<and> k \<le> 90) \<or> (192 \<le> k \<and> k \<le> 222 \<and> k \<noteq> 215))"

definition lower_char :: "char \<Rightarrow> char" where
  "lower_char c =
     (if is_capital (of_char c) then char_of ((of_char c :: nat) + 32) else c)"

definition toLowerCase :: "string \<Rightarrow> string" where
  "toLowerCase s = map lower_char s"

text \<open>\<^verbatim>\<open>s.substring(k)\<close> for an index \<open>k\<close>; a negative index counts as 0.\<close>

definition substring :: "string \<Rightarrow> int \<Rightarrow> string" where
  "substring s k = drop (nat k) s"

text \<open>
  A number inside a template literal: its decimal digits.
\<close>

definition digit_char :: "nat \<Rightarrow> char" where
  "digit_char d = char_of (48 + d)"

function show_nat :: "nat \<Rightarrow> string" where
  "show_nat n = (if n < 10 then [digit_char n] else show_nat (n div 10) @ [digit_char (n mod 10)])"
  by pat_completeness auto
termination
  by (relation "measure id") auto

text \<open>\<^verbatim>\<open>s.startsWith(p)\<close>.\<close>

definition startsWith :: "string \<Rightarrow> string \<Rightarrow> bool" where
  "startsWith s p = (take (length p) s = p)"

section \<open>Extension classifier\<close>

text \<open>
  \<^verbatim>\<open>
  function getFileExtension(filePath) {
    const lastDot = filePath.lastIndexOf('.');
    const lastSlash = Math.max(filePath.lastIndexOf('/'), filePath.lastIndexOf('\\'));
    if (lastDot === -1 || lastDot < lastSlash) { return ''; }
    return filePath.substring(lastDot + 1).toLowerCase();
  }
  function isMarkdownExtension(extension) {
    return extension === 'md' || extension === 'mdx';
  }
  \<close>
\<close>

definition getFileExtension :: "string \<Rightarrow> string" where
  "getFileExtension filePath =
     (let lastDot = lastIndexOf filePath (CHR ''.'');
          lastSlash = max (lastIndexOf filePath (CHR ''/'')) (lastIndexOf filePath backslash)
      in if lastDot = -1 \<or> lastDot < lastSlash then []
         else toLowerCase (substring filePath (lastDot + 1)))"

definition isMarkdownExtension :: "string \<Rightarrow> bool" where
  "isMarkdownExtension extension = (extension = ''md'' \<or> extension = ''mdx'')"

section \<open>Document tree\<close>

text \<open>
  A thrown value is an \<^verbatim>\<open>Error\<close> with its message, or any other value with what
  \<^verbatim>\<open>String(error)\<close> gives for it. The handlers of the source read it with
  \<^verbatim>\<open>error instanceof Error ? error.message : String(error)\<close>.
\<close>

datatype js_error = Error string | Thrown string

fun error_message :: "js_error \<Rightarrow> string" where
  "error_message (Error m) = m"
| "error_message (Thrown s) = s"

text \<open>
  A file object: the \<^verbatim>\<open>VFile\<close> that \<^verbatim>\<open>read\<close> resolves to, the
  \<^verbatim>\<open>{value, path}\<close> object of \<^verbatim>\<open>fetchRemoteContent\<close>, and the file the
  transformer is called with. \<open>file_compiler\<close> says that \<^verbatim>\<open>file.data._compiler\<close>
  is there and has a function \<^verbatim>\<open>addDependency\<close>.
\<close>

record vfile =
  file_path :: "string option"
  file_value :: string
  file_compiler :: bool

text \<open>
  A property that holds a string, holds \<^verbatim>\<open>null\<close>, or is not there.
\<close>

datatype js_string = Undefined | Null | Str string

text \<open>
  The \<^verbatim>\<open>value\<close> of an attribute of a JSX element: a string, an expression object
  (\<^verbatim>\<open>file={x}\<close>), or \<^verbatim>\<open>null\<close> for an attribute written without a value. The
  attribute list also holds expression attributes (\<^verbatim>\<open>{...props}\<close>), which have no
  name.
\<close>

datatype attribute_value = StringValue string | ExpressionValue string | NoValue

datatype attribute =
    MdxJsxAttribute string attribute_value
  | MdxJsxExpressionAttribute string

record position =
  line :: nat
  column :: nat

text \<open>
  The \<^verbatim>\<open>value\<close> property of a node: text, or (see \<open>codeBlockNode\<close>) a file
  object.
\<close>

datatype field_value = Text string | FileObject vfile

text \<open>
  A node is a JavaScript object. Its properties are optional, since
  \<^verbatim>\<open>Object.assign\<close> copies the properties the source object has and keeps the
  others of the target: \<open>node_type\<close>, \<open>name\<close>, \<open>attributes\<close>, \<open>children\<close>,
  \<open>node_value\<close> (the property \<^verbatim>\<open>value\<close>), \<open>lang\<close>, \<open>meta\<close>, \<open>position\<close>
  (the start point), and in \<open>props\<close> every other property by name (\<^verbatim>\<open>depth\<close>,
  \<^verbatim>\<open>url\<close>, ...) with its value rendered as text.
\<close>

datatype node = Node
  (node_type: string)
  (name: js_string)
  (attributes: "attribute list option")
  (children: "node list option")
  (node_value: "field_value option")
  (lang: js_string)
  (meta: js_string)
  (position: "position option")
  (props: "(string \<times> string) list")

definition with_children :: "node \<Rightarrow> node list \<Rightarrow> node" where
  "with_children n cs =
     Node (node_type n) (name n) (attributes n) (map_option (\<lambda>_. cs) (children n))
       (node_value n) (lang n) (meta n) (position n) (props n)"

definition children_list :: "node \<Rightarrow> node list" where
  "children_list n = (case children n of None \<Rightarrow> [] | Some cs \<Rightarrow> cs)"

text \<open>
  \<^verbatim>\<open>Object.assign(target, source)\<close>: every property of the source is written to
  the target, every other property of the target stays.
\<close>

definition assign_string :: "js_string \<Rightarrow> js_string \<Rightarrow> js_string" where
  "assign_string t s = (case s of Undefined \<Rightarrow> t | _ \<Rightarrow> s)"

definition assign_field :: "'a option \<Rightarrow> 'a option \<Rightarrow> 'a option" where
  "assign_field t s = (case s of None \<Rightarrow> t | Some v \<Rightarrow> Some v)"

definition assign :: "node \<Rightarrow> node \<Rightarrow> node" where
  "assign target source =
     Node (node_type source)
       (assign_string (name target) (name source))
       (assign_field (attributes target) (attributes source))
       (assign_field (children target) (children source))
       (assign_field (node_value target) (node_value source))
       (assign_string (lang target) (lang source))
       (assign_string (meta target) (meta source))
       (assign_field (position target) (position source))
       (AList.merge (props target) (props source))"

section \<open>Environment\<close>

text \<open>
  A processor of \<^verbatim>\<open>unified\<close> is an object: the list of the plugins attached to it,
  and whether it is frozen. \<^verbatim>\<open>p.use(q)\<close> throws on a frozen processor; on any other
  it attaches \<open>q\<close> to \<open>p\<close> itself and returns \<open>p\<close> (a plugin that is attached
  already is configured again and keeps its place in the list). \<^verbatim>\<open>p()\<close> is a copy
  of \<open>p\<close> that is not frozen; parsing and running freeze the copy, never \<open>p\<close>.
  \<^verbatim>\<open>remark()\<close> is a fresh processor with the markdown parser and serializer.
\<close>

datatype plugin = RemarkParse | RemarkGfm | RemarkStringify | RemarkMdx | Plugin string

record processor =
  attachers :: "plugin list"
  frozen :: bool

definition remark :: processor where
  "remark = \<lparr>attachers = [RemarkParse, RemarkStringify], frozen = False\<rparr>"

definition use_plugin :: "plugin \<Rightarrow> plugin list \<Rightarrow> plugin list" where
  "use_plugin q ps = (if q \<in> set ps then ps else ps @ [q])"

definition frozen_error :: js_error where
  "frozen_error =
     Error (''Cannot call `use` on a frozen processor.'' @ [newline]
            @ ''Create a new processor first, by calling it: use `processor()` instead of ''
            @ ''`processor`.'')"

text \<open>
  \<^verbatim>\<open>PluginOptions\<close>, every property optional, and the four constants the plugin
  destructures them into (lines 78 to 83).
\<close>

record options =
  opt_snippetsDir :: "string option"
  opt_fileAttribute :: "string option"
  opt_elementName :: "string option"
  opt_processor :: "processor option"

record config =
  snippetsDir :: string
  fileAttribute :: string
  elementName :: string
  unified :: "processor option"

text \<open>
  The processor an inclusion parses and runs its sub-document with, as the source
  builds it in \<^verbatim>\<open>(unified ?? remark()).use(...).use(mdxSnippet, {...})\<close>. \<open>base\<close> is
  the processor the caller supplied, as it was when the transform was called, or
  \<open>None\<close> for a fresh \<^verbatim>\<open>remark()\<close>. A supplied processor is one object, and every
  inclusion at every depth calls \<^verbatim>\<open>use\<close> on that object: \<open>earlier\<close> are the plugins
  the inclusions that settled before have attached to it. \<open>used\<close> are the plugins
  this inclusion attaches before it copies the processor, and \<open>snippet_options\<close>
  are the options \<^verbatim>\<open>mdxSnippet\<close> is attached with. \<open>attached\<close> is the list of the
  plugins of the copy, and \<open>later\<close> what a supplied processor has had attached
  when the copy runs.
\<close>

record pipeline =
  base :: "processor option"
  earlier :: "plugin list"
  used :: "plugin list"
  snippet_options :: options

definition attached :: "pipeline \<Rightarrow> plugin list" where
  "attached p =
     fold use_plugin (earlier p @ used p)
       (attachers (case base p of None \<Rightarrow> remark | Some u \<Rightarrow> u))"

definition later :: "pipeline \<Rightarrow> plugin list" where
  "later p = (case base p of None \<Rightarrow> [] | Some u \<Rightarrow> earlier p @ used p)"

text \<open>
  A response of \<^verbatim>\<open>fetch\<close>. \<^verbatim>\<open>response.ok\<close> is, by the Fetch standard, a status
  from 200 to 299; \<open>body\<close> is what \<^verbatim>\<open>response.text()\<close> resolves to or rejects
  with.
\<close>

record response =
  status :: nat
  statusText :: string
  body :: "js_error + string"

definition ok :: "response \<Rightarrow> bool" where
  "ok r = (200 \<le> status r \<and> status r \<le> 299)"

text \<open>
  What the plugin calls and does not define: the working directory and
  \<^verbatim>\<open>path.resolve\<close>, \<^verbatim>\<open>path.join\<close>; \<^verbatim>\<open>read(filePath, 'utf8')\<close> of
  \<^verbatim>\<open>to-vfile\<close> (the text of the file, or the rejection); the global \<^verbatim>\<open>fetch\<close>;
  whether the global scope binds \<^verbatim>\<open>VFile\<close> (the module imports only \<^verbatim>\<open>read\<close>
  from \<^verbatim>\<open>to-vfile\<close>, lines 1 to 7, so \<^verbatim>\<open>new VFile\<close> at line 192 looks the
  name up in the global scope; Node.js has no such global); the parser of a copied
  processor; and the transformers of the plugins the caller has attached to the
  processor it supplies, which are plugins other than this one and run before the
  transformer of this plugin (\<^verbatim>\<open>remark-gfm\<close>, \<^verbatim>\<open>remark-stringify\<close> and
  \<^verbatim>\<open>remark-mdx\<close> attach none).
\<close>

record world =
  cwd :: string
  path_resolve :: "string \<Rightarrow> string \<Rightarrow> string"
  path_join :: "string \<Rightarrow> string \<Rightarrow> string"
  read :: "string \<Rightarrow> js_error + string"
  fetch :: "string \<Rightarrow> js_error + response"
  global_VFile :: bool
  parse :: "pipeline \<Rightarrow> string \<Rightarrow> js_error + node"
  transformers :: "processor \<Rightarrow> node \<Rightarrow> js_error + node"

text \<open>
  What the transform does besides changing the tree: console output, the
  dependencies registered with the compiler, the requests sent, the files read, and
  the calls of \<^verbatim>\<open>use\<close> on the processor the caller supplied (\<^verbatim>\<open>use\<close> on a fresh
  \<^verbatim>\<open>remark()\<close> changes nothing outside the callback and is no event; neither is
  \<^verbatim>\<open>use(mdxSnippet, ...)\<close>, which \<open>snippet_options\<close> stands for). The events of
  one marker are in the order they happen. The order in which the promises of
  different markers settle depends on the timing of the reads and requests; the
  model settles them in the order of the walk, each one with the inclusions inside
  it, which is one of the orders that can happen. \<open>uses\<close> reads off a list of events
  what has been attached to the supplied processor.
\<close>

datatype console_arg = S string | N node

datatype event =
    ConsoleWarn "console_arg list"
  | ConsoleError "console_arg list"
  | AddDependency string
  | Fetch string
  | Read string
  | Use plugin

fun used_by :: "event \<Rightarrow> plugin list" where
  "used_by (Use q) = [q]"
| "used_by _ = []"

definition uses :: "event list \<Rightarrow> plugin list" where
  "uses evs = concat (map used_by evs)"

section \<open>Content resolver\<close>

text \<open>
  \<^verbatim>\<open>
  async function fetchRemoteContent(url) {
    try {
      const response = await fetch(url);
      if (!response.ok) {
        throw new Error(`HTTP ${response.status}: ${response.statusText}`);
      }
      const content = await response.text();
      return {value: content, path: url};
    } catch (error) {
      const errorMessage = error instanceof Error ? error.message : String(error);
      throw new Error(`Failed to fetch remote content from ${url}: ${errorMessage}`);
    }
  }
  \<close>
  The function returns what the promise settles to and the requests it sent.
\<close>

definition fetchRemoteContent :: "world \<Rightarrow> string \<Rightarrow> (js_error + vfile) \<times> event list" where
  "fetchRemoteContent w url =
     (case (case fetch w url of
              Inl e \<Rightarrow> Inl e
            | Inr response \<Rightarrow>
                if \<not> ok response
                then Inl (Error (''HTTP '' @ show_nat (status response) @ '': '' @ statusText response))
                else (case body response of
                        Inl e \<Rightarrow> Inl e
                      | Inr content \<Rightarrow>
                          Inr \<lparr>file_path = Some url, file_value = content, file_compiler = False\<rparr>))
      of Inl error \<Rightarrow>
           (Inl (Error (''Failed to fetch remote content from '' @ url @ '': '' @ error_message error)),
            [Fetch url])
       | Inr file \<Rightarrow> (Inr file, [Fetch url]))"

definition isRemoteFile :: "string \<Rightarrow> bool" where
  "isRemoteFile v = (startsWith v ''https://'' \<or> startsWith v ''http://'')"

section \<open>The plugin\<close>

text \<open>Lines 78 to 83: the options with their defaults.\<close>

definition plugin_config :: "world \<Rightarrow> options \<Rightarrow> config" where
  "plugin_config w opts =
     \<lparr>snippetsDir = (case opt_snippetsDir opts of
                       None \<Rightarrow> path_resolve w (cwd w) ''_snippets'' | Some d \<Rightarrow> d),
      fileAttribute = (case opt_fileAttribute opts of None \<Rightarrow> ''file'' | Some a \<Rightarrow> a),
      elementName = (case opt_elementName opts of None \<Rightarrow> ''Snippet'' | Some e \<Rightarrow> e),
      unified = opt_processor opts\<rparr>"

text \<open>
  The object every inclusion attaches the plugin with again:
  \<^verbatim>\<open>{snippetsDir, fileAttribute, elementName, processor: unified}\<close>.
\<close>

definition nested_options :: "config \<Rightarrow> options" where
  "nested_options cfg =
     \<lparr>opt_snippetsDir = Some (snippetsDir cfg),
      opt_fileAttribute = Some (fileAttribute cfg),
      opt_elementName = Some (elementName cfg),
      opt_processor = unified cfg\<rparr>"

text \<open>
  Lines 170 to 178, 180 to 187 and 212 to 221, for an inclusion that finds the
  plugins of \<open>store\<close> attached to the supplied processor by the inclusions before
  it. Without a supplied processor each of the three is built on a \<^verbatim>\<open>remark()\<close> of
  its own. With one, \<^verbatim>\<open>gfmProcessor\<close> and \<^verbatim>\<open>basicProcessor\<close> are both the supplied
  object, and both chains of \<^verbatim>\<open>use\<close> have run on it before either is copied (lines
  193 and 206): the fallback processor then has \<^verbatim>\<open>remark-gfm\<close> attached too.
  \<open>use_chain\<close> are the calls of \<^verbatim>\<open>use\<close> as events, and \<open>use_throws\<close> says that
  the first of them throws.
\<close>

definition chain :: "config \<Rightarrow> plugin list \<Rightarrow> plugin list \<Rightarrow> pipeline" where
  "chain cfg store qs =
     \<lparr>base = unified cfg,
      earlier = (case unified cfg of None \<Rightarrow> [] | Some u \<Rightarrow> store),
      used = qs,
      snippet_options = nested_options cfg\<rparr>"

definition gfmProcessor :: "config \<Rightarrow> plugin list \<Rightarrow> pipeline" where
  "gfmProcessor cfg store =
     chain cfg store
       (case unified cfg of
          None \<Rightarrow> [RemarkGfm, RemarkStringify]
        | Some u \<Rightarrow> [RemarkGfm, RemarkStringify, RemarkStringify])"

definition basicProcessor :: "config \<Rightarrow> plugin list \<Rightarrow> pipeline" where
  "basicProcessor cfg store =
     chain cfg store
       (case unified cfg of
          None \<Rightarrow> [RemarkStringify]
        | Some u \<Rightarrow> [RemarkGfm, RemarkStringify, RemarkStringify])"

definition snippetProcessor :: "config \<Rightarrow> plugin list \<Rightarrow> pipeline" where
  "snippetProcessor cfg store = chain cfg store [RemarkGfm, RemarkStringify, RemarkMdx]"

definition use_chain :: "config \<Rightarrow> plugin list \<Rightarrow> event list" where
  "use_chain cfg qs = (case unified cfg of None \<Rightarrow> [] | Some u \<Rightarrow> map Use qs)"

definition use_throws :: "config \<Rightarrow> bool" where
  "use_throws cfg = (case unified cfg of None \<Rightarrow> False | Some u \<Rightarrow> frozen u)"

text \<open>
  \<^verbatim>\<open>attributes.find((attr) => attr.name === name)\<close>, and the test
  \<^verbatim>\<open>attr && typeof attr.value === 'string'\<close> that lines 104, 127 and 129 make on
  what it finds.
\<close>

fun has_name :: "string \<Rightarrow> attribute \<Rightarrow> bool" where
  "has_name n (MdxJsxAttribute m v) = (m = n)"
| "has_name n (MdxJsxExpressionAttribute e) = False"

definition find_attribute :: "string \<Rightarrow> attribute list \<Rightarrow> attribute option" where
  "find_attribute n attrs = List.find (has_name n) attrs"

fun string_value :: "attribute option \<Rightarrow> string option" where
  "string_value (Some (MdxJsxAttribute n (StringValue v))) = Some v"
| "string_value _ = None"

text \<open>
  What the visitor leaves for the promise callbacks of one marker: the value of the
  file attribute, \<open>isRemoteFile\<close>, \<open>lang\<close>, \<open>meta\<close>, \<open>filePath\<close>, and what
  \<open>contentPromise\<close> settles to.
\<close>

record task =
  task_fileValue :: string
  task_isRemoteFile :: bool
  task_lang :: "string option"
  task_meta :: "string option"
  task_filePath :: string
  task_content :: "js_error + vfile"

definition is_marker :: "config \<Rightarrow> node \<Rightarrow> bool" where
  "is_marker cfg node =
     (\<not> ((node_type node \<noteq> ''mdxJsxFlowElement'' \<and> node_type node \<noteq> ''mdxJsxTextElement'')
         \<or> name node \<noteq> Str (elementName cfg)))"

definition missing_attribute_warning :: "config \<Rightarrow> node \<Rightarrow> event" where
  "missing_attribute_warning cfg node =
     ConsoleWarn
       [S (elementName cfg @ '' tag missing required '' @ [dquote] @ fileAttribute cfg @ [dquote]
           @ '' attribute:''),
        N node]"

text \<open>
  Lines 89 to 151, the part of the visitor that runs during the walk. It throws (a
  \<^verbatim>\<open>TypeError\<close>) when a matching element has no \<^verbatim>\<open>attributes\<close>; it returns
  without a task for a node that is no marker and for a marker without a string file
  attribute; otherwise it starts the read or the fetch (\<open>contentPromise\<close>, lines 131
  to 151, with the dependency it registers for a local file).
\<close>

definition contentPromise :: "config \<Rightarrow> world \<Rightarrow> vfile \<Rightarrow> string \<Rightarrow> (js_error + vfile) \<times> event list" where
  "contentPromise cfg w file fileValue =
     (if isRemoteFile fileValue then fetchRemoteContent w fileValue
      else
        (let filePath = path_join w (snippetsDir cfg) fileValue
         in (map_sum id
               (\<lambda>contents. \<lparr>file_path = Some filePath, file_value = contents,
                             file_compiler = False\<rparr>)
               (read w filePath),
             (if file_compiler file then [AddDependency filePath] else []) @ [Read filePath])))"

definition marker_task :: "config \<Rightarrow> world \<Rightarrow> vfile \<Rightarrow> attribute list \<Rightarrow> string \<Rightarrow> task" where
  "marker_task cfg w file attrs fileValue =
     \<lparr>task_fileValue = fileValue,
      task_isRemoteFile = isRemoteFile fileValue,
      task_lang = string_value (find_attribute ''lang'' attrs),
      task_meta = string_value (find_attribute ''meta'' attrs),
      task_filePath =
        (if isRemoteFile fileValue then fileValue else path_join w (snippetsDir cfg) fileValue),
      task_content = fst (contentPromise cfg w file fileValue)\<rparr>"

definition visitor :: "config \<Rightarrow> world \<Rightarrow> vfile \<Rightarrow> node \<Rightarrow> js_error + (task option \<times> event list)" where
  "visitor cfg w file node =
     (if (node_type node \<noteq> ''mdxJsxFlowElement'' \<and> node_type node \<noteq> ''mdxJsxTextElement'')
         \<or> name node \<noteq> Str (elementName cfg)
      then Inr (None, [])
      else
        (case attributes node of
           None \<Rightarrow> Inl (Error ''Cannot read properties of undefined (reading 'find')'')
         | Some attrs \<Rightarrow>
             (case string_value (find_attribute (fileAttribute cfg) attrs) of
                None \<Rightarrow> Inr (None, [missing_attribute_warning cfg node])
              | Some fileValue \<Rightarrow>
                  Inr (Some (marker_task cfg w file attrs fileValue),
                       snd (contentPromise cfg w file fileValue)))))"

text \<open>
  Lines 228 to 239. \<^verbatim>\<open>a || b\<close> is \<open>a\<close> unless \<open>a\<close> is \<^verbatim>\<open>null\<close> or the
  empty string.
\<close>

fun or_else :: "string option \<Rightarrow> js_string \<Rightarrow> js_string" where
  "or_else None d = d"
| "or_else (Some s) d = (if s = [] then d else Str s)"

definition codeBlockNode :: "string option \<Rightarrow> string option \<Rightarrow> string \<Rightarrow> vfile \<Rightarrow> node" where
  "codeBlockNode lang_value meta_value extension snippetFile =
     Node ''code'' Undefined None None
       (Some (if file_value snippetFile \<noteq> [] then Text (file_value snippetFile)
              else FileObject snippetFile))
       (or_else lang_value (or_else (Some extension) Null))
       (or_else meta_value Null)
       None []"

definition root :: "node list \<Rightarrow> node" where
  "root cs = Node ''root'' Undefined None (Some cs) None Undefined Undefined None []"

text \<open>
  Lines 154 to 241, the first \<^verbatim>\<open>then\<close> callback, up to the point where it returns:
  a tree (the code block branch), or the promise of \<^verbatim>\<open>processor().run(ast, file)\<close>.
  A rejection is whatever the callback throws: the first \<^verbatim>\<open>use\<close> on a frozen
  processor (lines 171 and 213, outside the \<^verbatim>\<open>try\<close>), or the parser. In the remote
  branch \<open>content\<close> is the text of the file, or the file object itself when the
  text is empty, which the parser reads as the same empty text.
\<close>

datatype step = Done node | Run pipeline node vfile

definition fallback_warning :: "js_error \<Rightarrow> event" where
  "fallback_warning gfmError =
     ConsoleWarn [S ''GFM processing failed, falling back to basic markdown:'',
                  S (error_message gfmError)]"

definition on_content :: "config \<Rightarrow> world \<Rightarrow> plugin list \<Rightarrow> task \<Rightarrow> vfile
    \<Rightarrow> (js_error + step) \<times> event list" where
  "on_content cfg w store t snippetFile =
     (let sourceFile = task_fileValue t;
          extension = getFileExtension sourceFile
      in if isMarkdownExtension extension
         then
           if use_throws cfg then (Inl frozen_error, [])
           else if task_isRemoteFile t
           then
             (let content = file_value snippetFile;
                  fileObj = \<lparr>file_path = Some sourceFile, file_value = content,
                             file_compiler = False\<rparr>;
                  attaching = use_chain cfg [RemarkGfm, RemarkStringify, RemarkStringify]
              in case (if global_VFile w then parse w (gfmProcessor cfg store) content
                       else Inl (Error ''VFile is not defined''))
                 of Inr ast \<Rightarrow> (Inr (Run (gfmProcessor cfg store) ast fileObj), attaching)
                  | Inl gfmError \<Rightarrow>
                      (case parse w (basicProcessor cfg store) content of
                         Inl e \<Rightarrow> (Inl e, attaching @ [fallback_warning gfmError])
                       | Inr ast \<Rightarrow>
                           (Inr (Run (basicProcessor cfg store) ast fileObj),
                            attaching @ [fallback_warning gfmError])))
           else
             (let attaching = use_chain cfg [RemarkGfm, RemarkStringify, RemarkMdx]
              in case parse w (snippetProcessor cfg store) (file_value snippetFile) of
                   Inl e \<Rightarrow> (Inl e, attaching)
                 | Inr ast \<Rightarrow> (Inr (Run (snippetProcessor cfg store) ast snippetFile), attaching))
         else
           (Inr (Done (root [codeBlockNode (task_lang t) (task_meta t) extension snippetFile])), []))"

text \<open>
  Lines 242 to 257, the second \<^verbatim>\<open>then\<close> callback. Reading
  \<^verbatim>\<open>result.children.length\<close> throws when the result has no children.
\<close>

definition fragment :: "node list \<Rightarrow> node" where
  "fragment cs = Node ''mdxJsxFlowElement'' Null (Some []) (Some cs) None Undefined Undefined None []"

definition replace_node :: "node \<Rightarrow> node \<Rightarrow> js_error + node" where
  "replace_node node result =
     (case children result of
        None \<Rightarrow> Inl (Error ''Cannot read properties of undefined (reading 'length')'')
      | Some cs \<Rightarrow>
          if length cs = 1 then Inr (assign node (hd cs))
          else Inr (assign node (fragment cs)))"

text \<open>Lines 258 to 271, the \<^verbatim>\<open>catch\<close> callback.\<close>

fun show_undefined :: "string option \<Rightarrow> string" where
  "show_undefined None = ''undefined''"
| "show_undefined (Some s) = s"

definition error_report :: "config \<Rightarrow> world \<Rightarrow> vfile \<Rightarrow> node \<Rightarrow> task \<Rightarrow> js_error \<Rightarrow> event" where
  "error_report cfg w file node t error =
     (let fileValue = task_fileValue t;
          sourcePath = (if task_isRemoteFile t then fileValue
                        else path_join w (snippetsDir cfg) fileValue)
      in ConsoleError
           [S ''Error reading snippet file:'',
            S ([newline, newline] @ ''Snippet at: '' @ show_undefined (file_path file) @ '':''
               @ show_undefined (map_option (show_nat \<circ> line) (position node)) @ '':''
               @ show_undefined (map_option (show_nat \<circ> column) (position node))),
            S ([newline] @ (if task_isRemoteFile t then ''Remote URL'' else ''File path'') @ '': ''
               @ sourcePath),
            S ([newline] @ ''Error: '' @ error_message error)])"

text \<open>
  \<^verbatim>\<open>processor().run(ast, file)\<close>, given to the walk as a parameter: \<open>None\<close> is a
  promise that never settles.
\<close>

type_synonym outcome = "(js_error + node \<times> event list) option"

type_synonym runner = "pipeline \<Rightarrow> node \<Rightarrow> vfile \<Rightarrow> outcome"

text \<open>
  Lines 153 to 271: the promise of one marker, from \<open>contentPromise\<close> through the
  two \<^verbatim>\<open>then\<close> callbacks to the \<^verbatim>\<open>catch\<close>. It settles to the marker node as it
  is afterwards and the events; it rejects never, since every rejection ends in the
  \<^verbatim>\<open>catch\<close> callback, which returns. \<open>store\<close> is what the supplied processor has
  had attached when the first callback runs.
\<close>

definition settle :: "config \<Rightarrow> world \<Rightarrow> vfile \<Rightarrow> node \<Rightarrow> task \<Rightarrow> event list \<Rightarrow> js_error + node
    \<Rightarrow> node \<times> event list" where
  "settle cfg w file node t evs result =
     (case (case result of Inl e \<Rightarrow> Inl e | Inr r \<Rightarrow> replace_node node r) of
        Inl e \<Rightarrow> (node, evs @ [error_report cfg w file node t e])
      | Inr node' \<Rightarrow> (node', evs))"

definition expand :: "runner \<Rightarrow> config \<Rightarrow> world \<Rightarrow> vfile \<Rightarrow> plugin list \<Rightarrow> node \<Rightarrow> task
    \<Rightarrow> (node \<times> event list) option" where
  "expand run cfg w file store node t =
     (case task_content t of
        Inl e \<Rightarrow> Some (settle cfg w file node t [] (Inl e))
      | Inr snippetFile \<Rightarrow>
          (case on_content cfg w store t snippetFile of
             (Inl e, evs) \<Rightarrow> Some (settle cfg w file node t evs (Inl e))
           | (Inr (Done result), evs) \<Rightarrow> Some (settle cfg w file node t evs (Inr result))
           | (Inr (Run p ast f), evs) \<Rightarrow>
               (case run p ast f of
                  None \<Rightarrow> None
                | Some (Inl e) \<Rightarrow> Some (settle cfg w file node t evs (Inl e))
                | Some (Inr (result, evs')) \<Rightarrow>
                    Some (settle cfg w file node t (evs @ evs') (Inr result)))))"

text \<open>
  Lines 85 to 277: \<^verbatim>\<open>visit\<close> of \<^verbatim>\<open>unist-util-visit\<close> calls the visitor on the
  node and then walks its children; the promises settle after the walk, each one
  writing its own marker node (whose children are by then the objects their own
  promises have written). \<^verbatim>\<open>await Promise.all(queue)\<close> waits for all of them.
  \<open>store\<close> is what the supplied processor has had attached when the walk reaches
  the node; each promise finds it with what the promises before it have attached.
\<close>

fun visit :: "runner \<Rightarrow> config \<Rightarrow> world \<Rightarrow> vfile \<Rightarrow> plugin list \<Rightarrow> node \<Rightarrow> outcome"
  and visit_all :: "runner \<Rightarrow> config \<Rightarrow> world \<Rightarrow> vfile \<Rightarrow> plugin list \<Rightarrow> node list
    \<Rightarrow> (js_error + node list \<times> event list) option"
where
  "visit run cfg w file store (Node ty nm attrs cs v lg mt pos ps) =
     (case visitor cfg w file (Node ty nm attrs cs v lg mt pos ps) of
        Inl e \<Rightarrow> Some (Inl e)
      | Inr (pending, evs0) \<Rightarrow>
          (case (case cs of None \<Rightarrow> Some (Inr ([], []))
                 | Some l \<Rightarrow> visit_all run cfg w file store l) of
             None \<Rightarrow> None
           | Some (Inl e) \<Rightarrow> Some (Inl e)
           | Some (Inr (cs', evs1)) \<Rightarrow>
               (case pending of
                  None \<Rightarrow>
                    Some (Inr (with_children (Node ty nm attrs cs v lg mt pos ps) cs', evs0 @ evs1))
                | Some t \<Rightarrow>
                    (case expand run cfg w file (store @ uses evs1)
                            (with_children (Node ty nm attrs cs v lg mt pos ps) cs') t of
                       None \<Rightarrow> None
                     | Some (node', evs2) \<Rightarrow> Some (Inr (node', evs0 @ evs1 @ evs2))))))"
| "visit_all run cfg w file store [] = Some (Inr ([], []))"
| "visit_all run cfg w file store (n # ns) =
     (case visit run cfg w file store n of
        None \<Rightarrow> None
      | Some (Inl e) \<Rightarrow> Some (Inl e)
      | Some (Inr (n', evs)) \<Rightarrow>
          (case visit_all run cfg w file (store @ uses evs) ns of
             None \<Rightarrow> None
           | Some (Inl e) \<Rightarrow> Some (Inl e)
           | Some (Inr (ns', evs')) \<Rightarrow> Some (Inr (n' # ns', evs @ evs'))))"

text \<open>
  \<^verbatim>\<open>processor().run(ast, file)\<close> of a pipeline: the transformers of a supplied
  processor, then the transformer of this plugin with the options it was attached
  with, on a supplied processor that has had the plugins \<open>later p\<close> attached. The
  number bounds the depth of inclusions inside inclusions that are followed; at
  depth 0 the promise does not settle.
\<close>

fun run_pipeline :: "nat \<Rightarrow> world \<Rightarrow> pipeline \<Rightarrow> node \<Rightarrow> vfile \<Rightarrow> outcome" where
  "run_pipeline 0 w p ast file = None"
| "run_pipeline (Suc n) w p ast file =
     (case (case base p of None \<Rightarrow> Inr ast | Some u \<Rightarrow> transformers w u ast) of
        Inl e \<Rightarrow> Some (Inl e)
      | Inr ast' \<Rightarrow>
          visit (run_pipeline n w) (plugin_config w (snippet_options p)) w file (later p) ast')"

text \<open>
  The plugin: \<^verbatim>\<open>mdxSnippet(options)\<close> applied to \<^verbatim>\<open>(tree, file)\<close>, with the
  processor of the options as it is when the transform is called.
\<close>

definition mdxSnippet :: "nat \<Rightarrow> world \<Rightarrow> options \<Rightarrow> node \<Rightarrow> vfile \<Rightarrow> outcome" where
  "mdxSnippet fuel w opts tree file =
     visit (run_pipeline fuel w) (plugin_config w opts) w file [] tree"

section \<open>Predicates on trees\<close>


text \<open>
  What the transform may do to a node. \<open>opens\<close> is, for a marker element whose
  file attribute is a string and whose read or fetch resolves, its attribute list,
  the reference and the content: these are the nodes the second \<^verbatim>\<open>then\<close> callback
  can write. \<open>same_properties n n'\<close>: \<open>n'\<close> has the properties of \<open>n\<close> with their
  values, the children apart. \<open>keeps n n'\<close>: no property of \<open>n\<close> is missing in
  \<open>n'\<close>, whatever its value (\<^verbatim>\<open>Object.assign\<close> deletes none).
\<close>

definition opens :: "config \<Rightarrow> world \<Rightarrow> vfile \<Rightarrow> node \<Rightarrow> (attribute list \<times> string \<times> vfile) option"
where
  "opens cfg w doc n =
     (if is_marker cfg n
      then (case attributes n of
              None \<Rightarrow> None
            | Some attrs \<Rightarrow>
                (case string_value (find_attribute (fileAttribute cfg) attrs) of
                   None \<Rightarrow> None
                 | Some v \<Rightarrow>
                     (case fst (contentPromise cfg w doc v) of
                        Inl e \<Rightarrow> None
                      | Inr f \<Rightarrow> Some (attrs, v, f))))
      else None)"





text \<open>A tree without a marker element in it.\<close>

fun marker_free :: "config \<Rightarrow> node \<Rightarrow> bool"
  and marker_free_all :: "config \<Rightarrow> node list \<Rightarrow> bool"
where
  "marker_free cfg (Node ty nm attrs cs v lg mt pos ps) =
     (\<not> is_marker cfg (Node ty nm attrs cs v lg mt pos ps)
      \<and> (case cs of None \<Rightarrow> True | Some l \<Rightarrow> marker_free_all cfg l))"
| "marker_free_all cfg [] = True"
| "marker_free_all cfg (n # ns) = (marker_free cfg n \<and> marker_free_all cfg ns)"

section \<open>A small site\<close>

text \<open>
  An environment to run the plugin in, after the fixtures of \<^verbatim>\<open>test.js\<close>: a
  snippet directory with a markdown file that includes another, two script files
  (one of them empty), a host that serves two markdown files, answers 404 for every
  other address and cannot be reached for one, and a parser that yields a JSX element
  for a marker tag when \<^verbatim>\<open>remark-mdx\<close> is attached and an \<^verbatim>\<open>html\<close> node when it is
  not, a table when \<^verbatim>\<open>remark-gfm\<close> is attached, and a paragraph for any other text.
  The global scope has no \<^verbatim>\<open>VFile\<close>, as in Node.js.
\<close>

definition marker_text :: "string \<Rightarrow> string" where
  "marker_text v = ''<Snippet file='' @ [dquote] @ v @ [dquote] @ '' />''"

definition element :: "string \<Rightarrow> attribute list \<Rightarrow> node" where
  "element n attrs =
     Node ''mdxJsxFlowElement'' (Str n) (Some attrs) (Some []) None Undefined Undefined
       (Some \<lparr>line = 3, column = 1\<rparr>) []"

definition marker :: "string \<Rightarrow> node" where
  "marker v = element ''Snippet'' [MdxJsxAttribute ''file'' (StringValue v)]"

definition snippet_block :: "attribute list \<Rightarrow> node list \<Rightarrow> node" where
  "snippet_block attrs cs =
     Node ''mdxJsxFlowElement'' (Str ''Snippet'') (Some attrs) (Some cs) None Undefined Undefined
       (Some \<lparr>line = 3, column = 1\<rparr>) []"

definition text_node :: "string \<Rightarrow> node" where
  "text_node s = Node ''text'' Undefined None None (Some (Text s)) Undefined Undefined None []"

definition para :: "string \<Rightarrow> node" where
  "para s = Node ''paragraph'' Undefined None (Some [text_node s]) None Undefined Undefined None []"

definition html :: "string \<Rightarrow> node" where
  "html s = Node ''html'' Undefined None None (Some (Text s)) Undefined Undefined None []"

definition table :: "string \<Rightarrow> node" where
  "table s = Node ''table'' Undefined None (Some [text_node s]) None Undefined Undefined None []"

definition table_text :: string where
  "table_text = ''| a |'' @ [newline] @ ''| - |''"

definition site_parse :: "pipeline \<Rightarrow> string \<Rightarrow> js_error + node" where
  "site_parse p s =
     (if s = marker_text ''child.mdx''
      then (if RemarkMdx \<in> set (attached p) then Inr (root [marker ''child.mdx''])
            else Inr (root [html s]))
      else if s = table_text
      then (if RemarkGfm \<in> set (attached p) then Inr (root [table s]) else Inr (root [para s]))
      else Inr (root [para s]))"

definition site_read :: "string \<Rightarrow> js_error + string" where
  "site_read p =
     (if p = ''/site/_snippets/child.mdx'' then Inr ''Child text''
      else if p = ''/site/_snippets/nested.mdx'' then Inr (marker_text ''child.mdx'')
      else if p = ''/site/_snippets/script.js'' then Inr ''console.log(1)''
      else if p = ''/site/_snippets/empty.js'' then Inr []
      else Inl (Error ''ENOENT: no such file or directory''))"

definition site_fetch :: "string \<Rightarrow> js_error + response" where
  "site_fetch u =
     (if u = ''https://example.com/nested.md''
      then Inr \<lparr>status = 200, statusText = ''OK'', body = Inr (marker_text ''child.mdx'')\<rparr>
      else if u = ''https://example.com/table.md''
      then Inr \<lparr>status = 200, statusText = ''OK'', body = Inr table_text\<rparr>
      else if u = ''https://example.com/network-error.md'' then Inl (Error ''Network timeout'')
      else Inr \<lparr>status = 404, statusText = ''Not Found'', body = Inr ''Not Found''\<rparr>)"

definition site :: world where
  "site =
     \<lparr>cwd = ''/site'', path_resolve = (\<lambda>a b. a @ ''/'' @ b), path_join = (\<lambda>a b. a @ ''/'' @ b),
      read = site_read, fetch = site_fetch, global_VFile = False, parse = site_parse,
      transformers = (\<lambda>u ast. Inr ast)\<rparr>"

definition no_options :: options where
  "no_options =
     \<lparr>opt_snippetsDir = None, opt_fileAttribute = None, opt_elementName = None,
      opt_processor = None\<rparr>"

definition host_file :: vfile where
  "host_file = \<lparr>file_path = Some ''doc.mdx'', file_value = [], file_compiler = False\<rparr>"

section \<open>The classifier in the words of the specification\<close>

text \<open>
  The classifier as the specification words it: the text after the last path
  separator, and in it the text after the last dot.
\<close>

definition is_separator :: "char \<Rightarrow> bool" where
  "is_separator c = (c = CHR ''/'' \<or> c = backslash)"

definition after_last :: "(char \<Rightarrow> bool) \<Rightarrow> string \<Rightarrow> string" where
  "after_last P s = rev (takeWhile (\<lambda>c. \<not> P c) (rev s))"

definition spec_raw_tag :: "string \<Rightarrow> string" where
  "spec_raw_tag s =
     (let b = after_last is_separator s
      in if CHR ''.'' \<in> set b then after_last (\<lambda>c. c = CHR ''.'') b else [])"

definition spec_tag :: "string \<Rightarrow> string" where
  "spec_tag s = toLowerCase (spec_raw_tag s)"

definition equal_ignoring_case :: "string \<Rightarrow> string \<Rightarrow> bool" where
  "equal_ignoring_case a b = (toLowerCase a = toLowerCase b)"

definition spec_markdown_like :: "string \<Rightarrow> bool" where
  "spec_markdown_like s =
     (equal_ignoring_case (spec_tag s) ''md'' \<or> equal_ignoring_case (spec_tag s) ''mdx'')"

section \<open>The claims about the replacement in their own words\<close>

text \<open>
  The marker after the splice, as claimed for a replacement of one node \<open>c\<close>: its
  type, attributes, children and value are those of \<open>c\<close>.
\<close>

definition claimed_overwrite :: "node \<Rightarrow> node \<Rightarrow> bool" where
  "claimed_overwrite n' c =
     (node_type n' = node_type c \<and> attributes n' = attributes c
      \<and> children n' = children c \<and> node_value n' = node_value c)"

text \<open>
  The code node, as claimed for content that is not markdown: the language tag is
  the \<open>lang\<close> attribute if supplied, else the extension tag, else absent; the meta
  string is the \<open>meta\<close> attribute if supplied, else absent; the value is the text.
\<close>

definition claimed_code_node :: "attribute list \<Rightarrow> string \<Rightarrow> string \<Rightarrow> node \<Rightarrow> bool" where
  "claimed_code_node attrs tag contents c =
     (node_type c = ''code''
      \<and> lang c = (case string_value (find_attribute ''lang'' attrs) of
                    Some l \<Rightarrow> Str l
                  | None \<Rightarrow> if tag = [] then Null else Str tag)
      \<and> meta c = (case string_value (find_attribute ''meta'' attrs) of
                    Some m \<Rightarrow> Str m
                  | None \<Rightarrow> Null)
      \<and> node_value c = Some (Text contents))"

text \<open>A tree contains a text when one of its nodes has it as its value.\<close>

fun contains_text :: "string \<Rightarrow> node \<Rightarrow> bool"
  and contains_text_all :: "string \<Rightarrow> node list \<Rightarrow> bool"
where
  "contains_text x (Node ty nm attrs cs v lg mt pos ps) =
     (v = Some (Text x) \<or> (case cs of None \<Rightarrow> False | Some l \<Rightarrow> contains_text_all x l))"
| "contains_text_all x [] = False"
| "contains_text_all x (n # ns) = (contains_text x n \<or> contains_text_all x ns)"

section \<open>The extension classifier meets its specification\<close>

lemma after_last_Cons:
  "after_last P (x # xs) =
     (if \<exists>y\<in>set xs. P y then after_last P xs else if P x then xs else x # xs)"
proof (cases "\<exists>y\<in>set xs. P y")
  case True
  then obtain y where "y \<in> set (rev xs)" "\<not> \<not> P y" by auto
  then have "takeWhile (\<lambda>c. \<not> P c) (rev xs @ [x]) = takeWhile (\<lambda>c. \<not> P c) (rev xs)"
    by (rule takeWhile_append1)
  with True show ?thesis by (simp add: after_last_def)
next
  case False
  then have "takeWhile (\<lambda>c. \<not> P c) (rev xs @ [x]) = rev xs @ takeWhile (\<lambda>c. \<not> P c) [x]"
    by (intro takeWhile_append2) auto
  with False show ?thesis by (simp add: after_last_def)
qed

lemma after_last_free: "\<forall>y\<in>set (after_last P s). \<not> P y"
  by (auto simp: after_last_def dest: set_takeWhileD)

lemma length_after_last: "length (after_last P s) \<le> length s"
  by (simp add: after_last_def) (metis length_rev length_takeWhile_le)

lemma after_last_none: "(\<forall>y\<in>set s. \<not> P y) \<Longrightarrow> after_last P s = s"
proof -
  assume "\<forall>y\<in>set s. \<not> P y"
  then have "takeWhile (\<lambda>c. \<not> P c) (rev s) = rev s"
    by (simp add: takeWhile_eq_all_conv)
  then show ?thesis by (metis after_last_def rev_rev_ident)
qed

lemma length_after_last_less: "\<exists>y\<in>set s. P y \<Longrightarrow> length (after_last P s) < length s"
  by (induction s) (auto simp: after_last_Cons less_Suc_eq_le length_after_last)

lemma lastIndexOf_eq:
  "lastIndexOf s c =
     (if c \<in> set s then int (length s) - 1 - int (length (after_last (\<lambda>x. x = c) s)) else -1)"
proof (induction s)
  case Nil
  then show ?case by simp
next
  case (Cons x xs)
  show ?case
  proof (cases "c \<in> set xs")
    case True
    then have "length (after_last (\<lambda>x. x = c) xs) < length xs"
      by (intro length_after_last_less) auto
    with True Cons show ?thesis
      by (auto simp: after_last_Cons Let_def)
  next
    case False
    with Cons show ?thesis
      by (auto simp: after_last_Cons Let_def)
  qed
qed

lemma drop_after_last:
  "\<exists>y\<in>set s. P y \<Longrightarrow> drop (length s - length (after_last P s)) s = after_last P s"
proof (induction s)
  case Nil
  then show ?case by simp
next
  case (Cons x xs)
  show ?case
  proof (cases "\<exists>y\<in>set xs. P y")
    case True
    then have "length (after_last P xs) < length xs" by (rule length_after_last_less)
    with True Cons.IH show ?thesis
      by (simp add: after_last_Cons Suc_diff_le less_imp_le)
  next
    case False
    with Cons.prems have "P x" by auto
    with False show ?thesis by (simp add: after_last_Cons)
  qed
qed

lemma after_last_Nil [simp]: "after_last P [] = []"
  by (simp add: after_last_def)

lemma length_after_last_disj:
  "length (after_last (\<lambda>c. P c \<or> Q c) s) = min (length (after_last P s)) (length (after_last Q s))"
proof (induction s)
  case Nil
  then show ?case by simp
next
  case (Cons x xs)
  have "length (after_last P xs) \<le> length xs" "length (after_last Q xs) \<le> length xs"
    by (rule length_after_last)+
  with Cons show ?case
    by (auto simp: after_last_Cons after_last_none min_def)
qed

lemma after_last_contains:
  "(\<exists>y\<in>set (after_last Q s). P y) \<longleftrightarrow> length (after_last P s) < length (after_last Q s)"
proof (induction s)
  case Nil
  then show ?case by simp
next
  case (Cons x xs)
  have "length (after_last P xs) \<le> length xs" "length (after_last Q xs) \<le> length xs"
    by (rule length_after_last)+
  with Cons show ?case
    by (auto simp: after_last_Cons after_last_none less_Suc_eq_le dest: length_after_last_less)
qed

lemma set_after_last: "y \<in> set (after_last P s) \<Longrightarrow> y \<in> set s"
  by (auto simp: after_last_def dest: set_takeWhileD)

lemma after_last_after_last:
  "\<exists>y\<in>set (after_last Q s). P y \<Longrightarrow> after_last P (after_last Q s) = after_last P s"
proof (induction s)
  case Nil
  then show ?case by simp
next
  case (Cons x xs)
  then show ?case
    by (auto simp: after_last_Cons split: if_splits dest: set_after_last)
qed

lemma length_after_last_neq:
  "\<exists>y\<in>set s. P y \<Longrightarrow> \<exists>y\<in>set s. Q y \<Longrightarrow> \<forall>c. \<not> (P c \<and> Q c) \<Longrightarrow>
     length (after_last P s) \<noteq> length (after_last Q s)"
proof (induction s)
  case Nil
  then show ?case by simp
next
  case (Cons x xs)
  show ?case
  proof (cases "\<exists>y\<in>set xs. P y")
    case P_xs: True
    then have lp: "length (after_last P xs) < length xs" by (rule length_after_last_less)
    show ?thesis
    proof (cases "\<exists>y\<in>set xs. Q y")
      case True
      with P_xs Cons show ?thesis by (simp add: after_last_Cons)
    next
      case False
      with Cons.prems have "Q x" by auto
      with False P_xs lp show ?thesis by (simp add: after_last_Cons)
    qed
  next
    case no_P: False
    with Cons.prems have px: "P x" by auto
    with Cons.prems have "\<not> Q x" by auto
    with Cons.prems have q: "\<exists>y\<in>set xs. Q y" by auto
    then have "length (after_last Q xs) < length xs" by (rule length_after_last_less)
    with no_P px q show ?thesis by (simp add: after_last_Cons)
  qed
qed

lemma lastSlash_eq:
  "max (lastIndexOf s (CHR ''/'')) (lastIndexOf s backslash) =
     (if \<exists>y\<in>set s. is_separator y
      then int (length s) - 1 - int (length (after_last is_separator s)) else -1)"
proof -
  have sep: "is_separator = (\<lambda>c. c = CHR ''/'' \<or> c = backslash)"
    by (simp add: is_separator_def fun_eq_iff)
  have l1: "length (after_last (\<lambda>x. x = CHR ''/'') s) \<le> length s"
    and l2: "length (after_last (\<lambda>x. x = backslash) s) \<le> length s"
    by (rule length_after_last)+
  have n1: "CHR ''/'' \<notin> set s \<Longrightarrow> after_last (\<lambda>x. x = CHR ''/'') s = s"
    and n2: "backslash \<notin> set s \<Longrightarrow> after_last (\<lambda>x. x = backslash) s = s"
    by (auto intro: after_last_none)
  have s1: "CHR ''/'' \<in> set s \<Longrightarrow> length (after_last (\<lambda>x. x = CHR ''/'') s) < length s"
    and s2: "backslash \<in> set s \<Longrightarrow> length (after_last (\<lambda>x. x = backslash) s) < length s"
    by (auto intro: length_after_last_less)
  show ?thesis
    unfolding sep length_after_last_disj lastIndexOf_eq
    using l1 l2 n1 n2 s1 s2 by (auto simp: max_def min_def)
qed

lemma getFileExtension_spec: "getFileExtension s = spec_tag s"
proof (cases "CHR ''.'' \<in> set s")
  case False
  then have "CHR ''.'' \<notin> set (after_last is_separator s)"
    by (auto dest: set_after_last)
  with False show ?thesis
    by (simp add: getFileExtension_def spec_tag_def spec_raw_tag_def lastIndexOf_eq Let_def
        toLowerCase_def)
next
  case True
  let ?d = "after_last (\<lambda>c. c = CHR ''.'') s"
  let ?b = "after_last is_separator s"
  have ld: "length ?d < length s"
    using True by (intro length_after_last_less) auto
  have dot: "lastIndexOf s (CHR ''.'') = int (length s) - 1 - int (length ?d)"
    using True by (simp add: lastIndexOf_eq)
  have contains: "CHR ''.'' \<in> set ?b \<longleftrightarrow> length ?d < length ?b"
    using after_last_contains [of is_separator s "\<lambda>c. c = CHR ''.''"] by auto
  have lb: "length ?b \<le> length s" by (rule length_after_last)
  have nosep: "\<not> (\<exists>y\<in>set s. is_separator y) \<Longrightarrow> ?b = s"
    by (auto intro: after_last_none)
  have neq: "\<exists>y\<in>set s. is_separator y \<Longrightarrow> length ?d \<noteq> length ?b"
    using True by (intro length_after_last_neq) (auto simp: is_separator_def backslash_def)
  have cond: "(lastIndexOf s (CHR ''.'') = -1 \<or>
      lastIndexOf s (CHR ''.'') < max (lastIndexOf s (CHR ''/'')) (lastIndexOf s backslash))
      \<longleftrightarrow> CHR ''.'' \<notin> set ?b"
  proof (cases "\<exists>y\<in>set s. is_separator y")
    case True
    with neq have "length ?d \<noteq> length ?b" by simp
    with True ld lb show ?thesis
      unfolding lastSlash_eq dot contains by auto
  next
    case False
    with nosep have "?b = s" by simp
    with False ld show ?thesis
      unfolding lastSlash_eq dot contains by auto
  qed
  show ?thesis
  proof (cases "CHR ''.'' \<in> set ?b")
    case False
    with cond show ?thesis
      by (simp add: getFileExtension_def spec_tag_def spec_raw_tag_def Let_def toLowerCase_def)
  next
    case in_b: True
    then have "after_last (\<lambda>c. c = CHR ''.'') ?b = ?d"
      by (intro after_last_after_last) auto
    moreover have "substring s (lastIndexOf s (CHR ''.'') + 1) = ?d"
      using drop_after_last [of s "\<lambda>c. c = CHR ''.''"] True ld
      by (simp add: substring_def dot nat_diff_distrib' of_nat_diff)
    ultimately show ?thesis
      using cond in_b
      by (simp add: getFileExtension_def spec_tag_def spec_raw_tag_def Let_def)
  qed
qed

lemma small_letter_not_capital: "is_capital k \<Longrightarrow> \<not> is_capital ((k + 32) mod 256)"
  unfolding is_capital_def by (cases "k < 224") auto

lemma lower_char_idem: "lower_char (lower_char c) = lower_char c"
  by (simp add: lower_char_def small_letter_not_capital)

lemma toLowerCase_md: "toLowerCase ''md'' = ''md''" by code_simp

lemma toLowerCase_mdx: "toLowerCase ''mdx'' = ''mdx''" by code_simp

lemma toLowerCase_idem: "toLowerCase (toLowerCase s) = toLowerCase s"
  by (simp add: toLowerCase_def lower_char_idem)

lemma markdown_spec: "isMarkdownExtension (getFileExtension s) = spec_markdown_like s"
  by (simp add: getFileExtension_spec isMarkdownExtension_def spec_markdown_like_def
    equal_ignoring_case_def spec_tag_def toLowerCase_idem toLowerCase_md toLowerCase_mdx)

text \<open>
  Claim C5. For every source name, \<open>getFileExtension\<close> returns the text after the
  last dot that stands after the last path separator, in lower case, and the empty
  tag when there is no such dot; and the name is taken for markdown exactly when that
  tag equals \<open>md\<close> or \<open>mdx\<close> once letter case is ignored. Both functions are pure:
  they take no environment and return no events.
\<close>

theorem classifier_meets_specification:
  "getFileExtension s = spec_tag s
   \<and> isMarkdownExtension (getFileExtension s) = spec_markdown_like s"
  using getFileExtension_spec [of s] markdown_spec [of s] by blast

theorem classifier_meets_specification_witness:
  "getFileExtension ''docs.v2/Guide.MDX'' = ''mdx''
   \<and> spec_tag ''docs.v2/Guide.MDX'' = ''mdx''
   \<and> spec_markdown_like ''docs.v2/Guide.MDX''
   \<and> getFileExtension ''docs.v2/Dockerfile'' = []
   \<and> \<not> spec_markdown_like ''docs.v2/Dockerfile''"
proof -
  have a: "getFileExtension ''docs.v2/Guide.MDX'' = ''mdx''" by code_simp
  have b: "getFileExtension ''docs.v2/Dockerfile'' = []" by code_simp
  have c: "spec_tag ''docs.v2/Guide.MDX'' = ''mdx'' \<and> spec_markdown_like ''docs.v2/Guide.MDX''"
    using classifier_meets_specification [of "''docs.v2/Guide.MDX''"]
    unfolding a by (simp add: isMarkdownExtension_def)
  have d: "\<not> spec_markdown_like ''docs.v2/Dockerfile''"
    using classifier_meets_specification [of "''docs.v2/Dockerfile''"]
    unfolding b by (simp add: isMarkdownExtension_def)
  show ?thesis using a b c d by simp
qed

section \<open>The walk, case by case\<close>

lemma uses_append [simp]: "uses (a @ b) = uses a @ uses b"
  by (simp add: uses_def)

lemma uses_Nil [simp]: "uses [] = []"
  by (simp add: uses_def)

lemma uses_Cons [simp]: "uses (e # evs) = used_by e @ uses evs"
  by (simp add: uses_def)

lemma visit_eq:
  "visit run cfg w file store n =
     (case visitor cfg w file n of
        Inl e \<Rightarrow> Some (Inl e)
      | Inr (pending, evs0) \<Rightarrow>
          (case visit_all run cfg w file store (children_list n) of
             None \<Rightarrow> None
           | Some (Inl e) \<Rightarrow> Some (Inl e)
           | Some (Inr (cs', evs1)) \<Rightarrow>
               (case pending of
                  None \<Rightarrow> Some (Inr (with_children n cs', evs0 @ evs1))
                | Some t \<Rightarrow>
                    (case expand run cfg w file (store @ uses evs1) (with_children n cs') t of
                       None \<Rightarrow> None
                     | Some (node', evs2) \<Rightarrow> Some (Inr (node', evs0 @ evs1 @ evs2))))))"
  by (cases n) (simp add: children_list_def split: option.splits sum.splits prod.splits)

declare visit.simps [simp del]


lemma visitor_no_attributes:
  "is_marker cfg n \<Longrightarrow> attributes n = None \<Longrightarrow> \<exists>e. visitor cfg w file n = Inl e"
  by (auto simp: visitor_def is_marker_def)


lemma visitor_task:
  "is_marker cfg n \<Longrightarrow> attributes n = Some attrs \<Longrightarrow>
   string_value (find_attribute (fileAttribute cfg) attrs) = Some v \<Longrightarrow>
   visitor cfg w file n =
     Inr (Some (marker_task cfg w file attrs v), snd (contentPromise cfg w file v))"
  by (auto simp: visitor_def is_marker_def)



lemma visit_task:
  "is_marker cfg n \<Longrightarrow> attributes n = Some attrs \<Longrightarrow>
   string_value (find_attribute (fileAttribute cfg) attrs) = Some v \<Longrightarrow>
   visit_all run cfg w file store (children_list n) = Some (Inr (cs', evs)) \<Longrightarrow>
   visit run cfg w file store n =
     (case expand run cfg w file (store @ uses evs) (with_children n cs')
             (marker_task cfg w file attrs v) of
        None \<Rightarrow> None
      | Some (n', evs2) \<Rightarrow>
          Some (Inr (n', snd (contentPromise cfg w file v) @ evs @ evs2)))"
  by (simp add: visit_eq visitor_task split: option.splits)

lemma visit_all_append:
  "visit_all run cfg w file store (xs @ ys) =
     (case visit_all run cfg w file store xs of
        None \<Rightarrow> None
      | Some (Inl e) \<Rightarrow> Some (Inl e)
      | Some (Inr (xs', ex)) \<Rightarrow>
          (case visit_all run cfg w file (store @ uses ex) ys of
             None \<Rightarrow> None
           | Some (Inl e) \<Rightarrow> Some (Inl e)
           | Some (Inr (ys', ey)) \<Rightarrow> Some (Inr (xs' @ ys', ex @ ey))))"
  by (induction xs arbitrary: store) (auto split: option.splits sum.splits)

lemma visit_all_in_place:
  "visit_all run cfg w file store xs = Some (Inr (xs', ex)) \<Longrightarrow>
   visit run cfg w file (store @ uses ex) m = Some (Inr (m', em)) \<Longrightarrow>
   visit_all run cfg w file (store @ uses ex @ uses em) ys = Some (Inr (ys', ey)) \<Longrightarrow>
   visit_all run cfg w file store (xs @ m # ys) = Some (Inr (xs' @ m' # ys', ex @ em @ ey))"
  by (simp add: visit_all_append)

lemma with_children_fields [simp]:
  "node_type (with_children n cs) = node_type n"
  "name (with_children n cs) = name n"
  "attributes (with_children n cs) = attributes n"
  "children (with_children n cs) = map_option (\<lambda>_. cs) (children n)"
  "node_value (with_children n cs) = node_value n"
  "lang (with_children n cs) = lang n"
  "meta (with_children n cs) = meta n"
  "position (with_children n cs) = position n"
  "props (with_children n cs) = props n"
  by (simp_all add: with_children_def)

lemma with_children_leaf: "children_list n = [] \<Longrightarrow> with_children n [] = n"
  by (cases n) (auto simp: with_children_def children_list_def split: option.splits)

section \<open>Evaluation on the small site\<close>

lemmas site_defs =
  site_def site_parse_def site_read_def site_fetch_def no_options_def host_file_def
  marker_def element_def snippet_block_def para_def html_def table_def text_node_def marker_text_def table_text_def
  plugin_config_def nested_options_def remark_def attached_def later_def chain_def
  gfmProcessor_def basicProcessor_def snippetProcessor_def use_chain_def use_throws_def
  use_plugin_def

lemmas plugin_defs =
  mdxSnippet_def visit_eq visitor_def marker_task_def contentPromise_def fetchRemoteContent_def
  isRemoteFile_def startsWith_def ok_def expand_def settle_def on_content_def replace_node_def
  assign_def assign_string_def assign_field_def fragment_def root_def codeBlockNode_def
  error_report_def missing_attribute_warning_def fallback_warning_def find_attribute_def
  children_list_def with_children_def is_marker_def dquote_def newline_def backslash_def
  Let_def

lemmas eval_defs =
  getFileExtension_def isMarkdownExtension_def toLowerCase_def lower_char_def is_capital_def
  substring_def



lemma show_nat_404: "show_nat 404 = ''404''" by code_simp

section \<open>Malformed markers\<close>


lemma find_attribute_named:
  "find_attribute n attrs = Some a \<Longrightarrow> \<exists>val. a = MdxJsxAttribute n val"
proof -
  assume "find_attribute n attrs = Some a"
  then have "has_name n a" by (auto simp: find_attribute_def find_Some_iff)
  then show ?thesis by (cases a) auto
qed



section \<open>Failures stay with their marker\<close>




lemma uses_contentPromise [simp]: "uses (snd (contentPromise cfg w file v)) = []"
  by (simp add: contentPromise_def fetchRemoteContent_def Let_def
      split: sum.splits)

lemma uses_error_report [simp]: "used_by (error_report cfg w file n t e) = []"
  by (simp add: error_report_def Let_def)





section \<open>Nodes that are not markers\<close>







lemma opens_not_marker: "\<not> is_marker cfg n \<Longrightarrow> opens cfg w doc n = None"
  by (simp add: opens_def)


lemma with_children_children_list:
  "children n = Some l \<Longrightarrow> children_list (with_children n cs') = cs'"
  "children n = None \<Longrightarrow> with_children n cs' = n"
  by (cases n; simp add: with_children_def children_list_def)+




lemma on_content_opaque:
  "\<not> isMarkdownExtension (getFileExtension (task_fileValue t)) \<Longrightarrow>
   on_content cfg w store t f =
     (Inr (Done (root [codeBlockNode (task_lang t) (task_meta t)
                         (getFileExtension (task_fileValue t)) f])), [])"
  by (simp add: on_content_def Let_def)







section \<open>The splice\<close>

lemma assign_fields [simp]:
  "node_type (assign t s) = node_type s"
  "name (assign t s) = assign_string (name t) (name s)"
  "attributes (assign t s) = assign_field (attributes t) (attributes s)"
  "children (assign t s) = assign_field (children t) (children s)"
  "node_value (assign t s) = assign_field (node_value t) (node_value s)"
  "lang (assign t s) = assign_string (lang t) (lang s)"
  "meta (assign t s) = assign_string (meta t) (meta s)"
  "position (assign t s) = assign_field (position t) (position s)"
  "props (assign t s) = AList.merge (props t) (props s)"
  by (simp_all add: assign_def)

lemma replace_node_children:
  "children result = Some cs \<Longrightarrow>
   replace_node node result =
     Inr (if length cs = 1 then assign node (hd cs) else assign node (fragment cs))"
  by (simp add: replace_node_def)

lemma settle_resolved:
  "children result = Some cs \<Longrightarrow>
   settle cfg w file node t evs (Inr result) =
     (if length cs = 1 then assign node (hd cs) else assign node (fragment cs), evs)"
  by (simp add: settle_def replace_node_children)

lemma expand_done:
  "task_content t = Inr f \<Longrightarrow> on_content cfg w store t f = (Inr (Done result), evs) \<Longrightarrow>
   expand run cfg w file store n t = Some (settle cfg w file n t evs (Inr result))"
  by (simp add: expand_def)

lemma expand_run:
  "task_content t = Inr f \<Longrightarrow> on_content cfg w store t f = (Inr (Run p ast f'), evs) \<Longrightarrow>
   run p ast f' = Some (Inr (result, evs')) \<Longrightarrow>
   expand run cfg w file store n t = Some (settle cfg w file n t (evs @ evs') (Inr result))"
  by (simp add: expand_def)

text \<open>
  Claim C2, amended. For a marker whose sub-document has resolved to a tree with the
  children \<open>cs\<close>: if \<open>cs\<close> is one node, every property that node has is written
  over the marker's property of that name, and a property the node does not have
  keeps the marker's value; otherwise (no node, or several) the marker becomes a flow
  element with the name \<open>null\<close>, an empty attribute list and the children \<open>cs\<close> in
  their order, its other properties kept. The node stays where it stood in the list
  of its siblings.
\<close>

theorem replacement_is_written_over_the_marker:
  assumes "children result = Some cs"
  shows
    "settle cfg w file node t evs (Inr result) =
       (if length cs = 1 then assign node (hd cs) else assign node (fragment cs), evs)
     \<and> node_type (assign node c) = node_type c
     \<and> name (assign node c) = (case name c of Undefined \<Rightarrow> name node | Null \<Rightarrow> Null | Str x \<Rightarrow> Str x)
     \<and> attributes (assign node c) = (case attributes c of None \<Rightarrow> attributes node | Some a \<Rightarrow> Some a)
     \<and> children (assign node c) = (case children c of None \<Rightarrow> children node | Some l \<Rightarrow> Some l)
     \<and> node_value (assign node c) = (case node_value c of None \<Rightarrow> node_value node | Some v \<Rightarrow> Some v)
     \<and> lang (assign node c) = (case lang c of Undefined \<Rightarrow> lang node | Null \<Rightarrow> Null | Str x \<Rightarrow> Str x)
     \<and> meta (assign node c) = (case meta c of Undefined \<Rightarrow> meta node | Null \<Rightarrow> Null | Str x \<Rightarrow> Str x)
     \<and> position (assign node c) = (case position c of None \<Rightarrow> position node | Some p \<Rightarrow> Some p)
     \<and> map_of (props (assign node c)) = map_of (props node) ++ map_of (props c)
     \<and> node_type (assign node (fragment cs)) = ''mdxJsxFlowElement''
     \<and> name (assign node (fragment cs)) = Null
     \<and> attributes (assign node (fragment cs)) = Some []
     \<and> children (assign node (fragment cs)) = Some cs
     \<and> node_value (assign node (fragment cs)) = node_value node
     \<and> lang (assign node (fragment cs)) = lang node
     \<and> meta (assign node (fragment cs)) = meta node
     \<and> position (assign node (fragment cs)) = position node
     \<and> props (assign node (fragment cs)) = props node
     \<and> (\<forall>run store m m' em xs xs' ex ys ys' ey.
          visit_all run cfg w file store xs = Some (Inr (xs', ex)) \<longrightarrow>
          visit run cfg w file (store @ uses ex) m = Some (Inr (m', em)) \<longrightarrow>
          visit_all run cfg w file (store @ uses ex @ uses em) ys = Some (Inr (ys', ey)) \<longrightarrow>
          visit_all run cfg w file store (xs @ m # ys) = Some (Inr (xs' @ m' # ys', ex @ em @ ey)))"
  using assms
  by (auto simp: settle_resolved assign_string_def assign_field_def fragment_def
      AList.merge_conv' visit_all_append
      split: js_string.splits option.splits)

theorem replacement_is_written_over_the_marker_witness:
  "fst (settle (plugin_config site no_options) site host_file (marker ''simple.mdx'')
         (marker_task (plugin_config site no_options) site host_file
            [MdxJsxAttribute ''file'' (StringValue ''simple.mdx'')] ''simple.mdx'')
         [] (Inr (root [para ''Hello''])))
   = Node ''paragraph'' (Str ''Snippet'') (Some [MdxJsxAttribute ''file'' (StringValue ''simple.mdx'')])
       (Some [text_node ''Hello'']) None Undefined Undefined (Some \<lparr>line = 3, column = 1\<rparr>) []
   \<and> fst (settle (plugin_config site no_options) site host_file (marker ''simple.mdx'')
         (marker_task (plugin_config site no_options) site host_file
            [MdxJsxAttribute ''file'' (StringValue ''simple.mdx'')] ''simple.mdx'')
         [] (Inr (root [para ''Hello'', para ''World''])))
   = Node ''mdxJsxFlowElement'' Null (Some []) (Some [para ''Hello'', para ''World'']) None
       Undefined Undefined (Some \<lparr>line = 3, column = 1\<rparr>) []
   \<and> fst (settle (plugin_config site no_options) site host_file (marker ''simple.mdx'')
         (marker_task (plugin_config site no_options) site host_file
            [MdxJsxAttribute ''file'' (StringValue ''simple.mdx'')] ''simple.mdx'')
         [] (Inr (root [])))
   = Node ''mdxJsxFlowElement'' Null (Some []) (Some []) None
       Undefined Undefined (Some \<lparr>line = 3, column = 1\<rparr>) []"
proof -
  have 1: "children (root [para ''Hello'']) = Some [para ''Hello'']" by (simp add: root_def)
  have 2: "children (root [para ''Hello'', para ''World'']) = Some [para ''Hello'', para ''World'']"
    by (simp add: root_def)
  have 3: "children (root []) = Some []" by (simp add: root_def)
  show ?thesis
    using replacement_is_written_over_the_marker [OF 1, THEN conjunct1]
      replacement_is_written_over_the_marker [OF 2, THEN conjunct1]
      replacement_is_written_over_the_marker [OF 3, THEN conjunct1]
    by (simp add: assign_def assign_string_def assign_field_def fragment_def marker_def
        element_def para_def)
qed

text \<open>
  Claim C2 as stated fails: a script file is replaced by one code node, which has
  no attributes and no children, and the marker keeps its own attribute list and its
  own (empty) list of children after the splice.
\<close>

theorem single_replacement_keeps_marker_fields:
  "on_content (plugin_config site no_options) site []
     (marker_task (plugin_config site no_options) site host_file
        [MdxJsxAttribute ''file'' (StringValue ''script.js'')] ''script.js'')
     \<lparr>file_path = Some ''/site/_snippets/script.js'', file_value = ''console.log(1)'',
        file_compiler = False\<rparr>
   = (Inr (Done (root [Node ''code'' Undefined None None (Some (Text ''console.log(1)''))
        (Str ''js'') Null None []])), [])
   \<and> mdxSnippet 0 site no_options (root [marker ''script.js'']) host_file
     = Some (Inr (root [Node ''code'' (Str ''Snippet'')
            (Some [MdxJsxAttribute ''file'' (StringValue ''script.js'')]) (Some [])
            (Some (Text ''console.log(1)'')) (Str ''js'') Null
            (Some \<lparr>line = 3, column = 1\<rparr>) []],
          [Read ''/site/_snippets/script.js'']))
   \<and> \<not> claimed_overwrite
         (Node ''code'' (Str ''Snippet'')
            (Some [MdxJsxAttribute ''file'' (StringValue ''script.js'')]) (Some [])
            (Some (Text ''console.log(1)'')) (Str ''js'') Null
            (Some \<lparr>line = 3, column = 1\<rparr>) [])
         (Node ''code'' Undefined None None (Some (Text ''console.log(1)''))
            (Str ''js'') Null None [])"
  by (simp add: plugin_defs site_defs eval_defs claimed_overwrite_def)

section \<open>Content that is not markdown\<close>

lemma marker_task_fields [simp]:
  "task_fileValue (marker_task cfg w file attrs v) = v"
  "task_isRemoteFile (marker_task cfg w file attrs v) = isRemoteFile v"
  "task_lang (marker_task cfg w file attrs v) = string_value (find_attribute ''lang'' attrs)"
  "task_meta (marker_task cfg w file attrs v) = string_value (find_attribute ''meta'' attrs)"
  "task_filePath (marker_task cfg w file attrs v) =
     (if isRemoteFile v then v else path_join w (snippetsDir cfg) v)"
  "task_content (marker_task cfg w file attrs v) = fst (contentPromise cfg w file v)"
  by (simp_all add: marker_task_def)

lemma contentPromise_parse [simp]:
  "contentPromise cfg (w\<lparr>parse := q\<rparr>) file v = contentPromise cfg w file v"
  by (simp add: contentPromise_def fetchRemoteContent_def)

lemma marker_task_parse [simp]:
  "marker_task cfg (w\<lparr>parse := q\<rparr>) file attrs v = marker_task cfg w file attrs v"
  by (simp add: marker_task_def)

text \<open>
  Claim C4, amended. A marker whose reference has an extension that is not markdown
  is replaced by exactly one code node: its language tag is the \<open>lang\<close> attribute
  if that is a non-empty string, else the extension tag if that is not empty, else
  \<open>null\<close>; its meta string is the \<open>meta\<close> attribute if that is a non-empty string,
  else \<open>null\<close>; its value is the resolved text as it is when that text is not
  empty. The text is not parsed: the result is the same with any parser.
\<close>

theorem opaque_content_becomes_a_code_node:
  assumes "is_marker cfg m" and "attributes m = Some attrs"
    and "string_value (find_attribute (fileAttribute cfg) attrs) = Some v"
    and "\<not> isMarkdownExtension (getFileExtension v)"
    and "fst (contentPromise cfg w file v) = Inr f"
    and "visit_all run cfg w file store (children_list m) = Some (Inr (cs', evs))"
  shows
    "\<exists>c. (\<forall>s. on_content cfg w s (marker_task cfg w file attrs v) f = (Inr (Done (root [c])), []))
       \<and> (\<forall>q s. on_content cfg (w\<lparr>parse := q\<rparr>) s (marker_task cfg w file attrs v) f
                = (Inr (Done (root [c])), []))
       \<and> visit run cfg w file store m =
           Some (Inr (assign (with_children m cs') c, snd (contentPromise cfg w file v) @ evs))
       \<and> node_type c = ''code''
       \<and> lang c =
           (case string_value (find_attribute ''lang'' attrs) of
              None \<Rightarrow> (if getFileExtension v = [] then Null else Str (getFileExtension v))
            | Some l \<Rightarrow>
                if l = [] then (if getFileExtension v = [] then Null else Str (getFileExtension v))
                else Str l)
       \<and> meta c =
           (case string_value (find_attribute ''meta'' attrs) of
              None \<Rightarrow> Null
            | Some x \<Rightarrow> if x = [] then Null else Str x)
       \<and> (if file_value f = [] then True else node_value c = Some (Text (file_value f)))
       \<and> name c = Undefined \<and> attributes c = None \<and> children c = None"
proof -
  let ?t = "marker_task cfg w file attrs v"
  let ?c = "codeBlockNode (task_lang ?t) (task_meta ?t) (getFileExtension v) f"
  have oc: "on_content cfg w' s ?t f = (Inr (Done (root [?c])), [])" for w' s
    using assms(4) on_content_opaque [of ?t cfg w' s f] by simp
  have "expand run cfg w file (store @ uses evs) (with_children m cs') ?t
      = Some (settle cfg w file (with_children m cs') ?t [] (Inr (root [?c])))"
    using assms(5) oc by (intro expand_done) simp_all
  moreover have "children (root [?c]) = Some [?c]" by (simp add: root_def)
  ultimately have ex: "expand run cfg w file (store @ uses evs) (with_children m cs') ?t
      = Some (assign (with_children m cs') ?c, [])"
    by (simp add: settle_resolved)
  have v: "visit run cfg w file store m =
      Some (Inr (assign (with_children m cs') ?c, snd (contentPromise cfg w file v) @ evs))"
    using visit_task [OF assms(1,2,3,6)] ex by simp
  have fields: "node_type ?c = ''code''"
    "lang ?c =
       (case string_value (find_attribute ''lang'' attrs) of
          None \<Rightarrow> (if getFileExtension v = [] then Null else Str (getFileExtension v))
        | Some l \<Rightarrow>
            if l = [] then (if getFileExtension v = [] then Null else Str (getFileExtension v))
            else Str l)"
    "meta ?c =
       (case string_value (find_attribute ''meta'' attrs) of
          None \<Rightarrow> Null
        | Some x \<Rightarrow> if x = [] then Null else Str x)"
    "if file_value f = [] then True else node_value ?c = Some (Text (file_value f))"
    "name ?c = Undefined" "attributes ?c = None" "children ?c = None"
    by (simp_all add: codeBlockNode_def split: option.splits)
  show ?thesis
    using oc v fields by (intro exI [of _ ?c]) blast
qed

theorem opaque_content_becomes_a_code_node_witness:
  "visit (run_pipeline 0 site) (plugin_config site no_options) site host_file []
     (element ''Snippet''
        [MdxJsxAttribute ''file'' (StringValue ''script.js''),
         MdxJsxAttribute ''lang'' (StringValue ''typescript''),
         MdxJsxAttribute ''meta'' (StringValue ''showLineNumbers'')])
   = Some (Inr (Node ''code'' (Str ''Snippet'')
        (Some [MdxJsxAttribute ''file'' (StringValue ''script.js''),
               MdxJsxAttribute ''lang'' (StringValue ''typescript''),
               MdxJsxAttribute ''meta'' (StringValue ''showLineNumbers'')])
        (Some []) (Some (Text ''console.log(1)'')) (Str ''typescript'') (Str ''showLineNumbers'')
        (Some \<lparr>line = 3, column = 1\<rparr>) [],
      [Read ''/site/_snippets/script.js'']))"
proof -
  let ?cfg = "plugin_config site no_options"
  let ?run = "run_pipeline 0 site"
  let ?attrs = "[MdxJsxAttribute ''file'' (StringValue ''script.js''),
         MdxJsxAttribute ''lang'' (StringValue ''typescript''),
         MdxJsxAttribute ''meta'' (StringValue ''showLineNumbers'')]"
  let ?m = "element ''Snippet'' ?attrs"
  let ?f = "\<lparr>file_path = Some ''/site/_snippets/script.js'', file_value = ''console.log(1)'',
        file_compiler = False\<rparr>"
  let ?c = "Node ''code'' Undefined None None (Some (Text ''console.log(1)''))
        (Str ''typescript'') (Str ''showLineNumbers'') None []"
  have 1: "is_marker ?cfg ?m" by (simp add: site_defs is_marker_def)
  have 2: "attributes ?m = Some ?attrs" by (simp add: site_defs)
  have 3: "string_value (find_attribute (fileAttribute ?cfg) ?attrs) = Some ''script.js''"
    by (simp add: site_defs find_attribute_def)
  have 4: "\<not> isMarkdownExtension (getFileExtension ''script.js'')"
    by (simp add: eval_defs backslash_def)
  have 5: "fst (contentPromise ?cfg site host_file ''script.js'') = Inr ?f"
    by (simp add: plugin_defs site_defs)
  have 6: "visit_all ?run ?cfg site host_file [] (children_list ?m) = Some (Inr ([], []))"
    by (simp add: site_defs children_list_def)
  from opaque_content_becomes_a_code_node [OF 1 2 3 4 5 6]
  obtain c where
    oc: "on_content ?cfg site [] (marker_task ?cfg site host_file ?attrs ''script.js'') ?f
          = (Inr (Done (root [c])), [])"
    and v: "visit ?run ?cfg site host_file [] ?m =
           Some (Inr (assign (with_children ?m []) c,
             snd (contentPromise ?cfg site host_file ''script.js'') @ []))"
    by blast
  have "on_content ?cfg site [] (marker_task ?cfg site host_file ?attrs ''script.js'') ?f
          = (Inr (Done (root [?c])), [])"
    by (simp add: plugin_defs site_defs eval_defs)
  with oc have "c = ?c" by (simp add: root_def)
  with v show ?thesis by (simp add: plugin_defs site_defs)
qed

text \<open>
  Claim C4 as stated fails: with an empty \<open>lang\<close> attribute on a marker for
  \<open>script.js\<close>, the language tag of the code node is the extension \<open>js\<close>, not
  the attribute.
\<close>

theorem empty_lang_attribute_is_not_the_tag:
  "string_value (find_attribute ''lang''
     [MdxJsxAttribute ''file'' (StringValue ''script.js''),
      MdxJsxAttribute ''lang'' (StringValue [])]) = Some []
   \<and> on_content (plugin_config site no_options) site []
       (marker_task (plugin_config site no_options) site host_file
          [MdxJsxAttribute ''file'' (StringValue ''script.js''),
           MdxJsxAttribute ''lang'' (StringValue [])] ''script.js'')
       \<lparr>file_path = Some ''/site/_snippets/script.js'', file_value = ''console.log(1)'',
          file_compiler = False\<rparr>
     = (Inr (Done (root [Node ''code'' Undefined None None (Some (Text ''console.log(1)''))
          (Str ''js'') Null None []])), [])
   \<and> \<not> claimed_code_node
         [MdxJsxAttribute ''file'' (StringValue ''script.js''),
          MdxJsxAttribute ''lang'' (StringValue [])]
         ''js'' ''console.log(1)''
         (Node ''code'' Undefined None None (Some (Text ''console.log(1)''))
            (Str ''js'') Null None [])"
  by (simp add: plugin_defs site_defs eval_defs claimed_code_node_def)

text \<open>
  The value of the code node for an empty file is the file object, not the empty
  text: \<^verbatim>\<open>snippetFile.value || snippetFile\<close> takes the right operand for an empty
  string. The amended claim above leaves this case out.
\<close>

lemma empty_file_value_is_the_file_object:
  "mdxSnippet 0 site no_options (root [marker ''empty.js'']) host_file
   = Some (Inr (root [Node ''code'' (Str ''Snippet'')
          (Some [MdxJsxAttribute ''file'' (StringValue ''empty.js'')]) (Some [])
          (Some (FileObject \<lparr>file_path = Some ''/site/_snippets/empty.js'', file_value = [],
                              file_compiler = False\<rparr>))
          (Str ''js'') Null (Some \<lparr>line = 3, column = 1\<rparr>) []],
        [Read ''/site/_snippets/empty.js'']))"
  by (simp add: plugin_defs site_defs eval_defs)

section \<open>Remote references\<close>

lemma startsWith_iff: "startsWith s p \<longleftrightarrow> (\<exists>rest. s = p @ rest)"
proof
  assume "startsWith s p"
  then have "s = p @ drop (length p) s"
    unfolding startsWith_def by (metis append_take_drop_id)
  then show "\<exists>rest. s = p @ rest" ..
next
  assume "\<exists>rest. s = p @ rest"
  then show "startsWith s p" by (auto simp: startsWith_def)
qed

lemma isRemoteFile_iff:
  "isRemoteFile v \<longleftrightarrow> (\<exists>rest. v = ''https://'' @ rest) \<or> (\<exists>rest. v = ''http://'' @ rest)"
  unfolding isRemoteFile_def startsWith_iff ..

lemma fetchRemoteContent_requests: "snd (fetchRemoteContent w url) = [Fetch url]"
  by (simp add: fetchRemoteContent_def split: sum.splits)

text \<open>
  Claim C6. A reference is remote exactly when it begins with \<open>http://\<close> or
  \<open>https://\<close>. Resolving it sends one request to the URL. It fails exactly when
  the transport fails (\<^verbatim>\<open>fetch\<close> rejects, or reading the body of a successful
  response rejects) or the status of the response is not from 200 to 299; the error
  is then one \<^verbatim>\<open>Error\<close> whose message holds the URL and the message of the cause,
  or \<open>HTTP\<close>, the status and the status text. On success the path of the file
  object is the URL, and the URL is the \<open>filePath\<close> of the marker's task.
\<close>

theorem remote_resolution:
  "(isRemoteFile v \<longleftrightarrow> (\<exists>rest. v = ''https://'' @ rest) \<or> (\<exists>rest. v = ''http://'' @ rest))
   \<and> snd (fetchRemoteContent w url) = [Fetch url]
   \<and> ((\<exists>e. fst (fetchRemoteContent w url) = Inl e) \<longleftrightarrow>
        (\<exists>e. fetch w url = Inl e)
        \<or> (\<exists>r. fetch w url = Inr r
               \<and> (\<not> (200 \<le> status r \<and> status r \<le> 299) \<or> (\<exists>e. body r = Inl e))))
   \<and> (\<forall>e. fetch w url = Inl e \<longrightarrow>
          fst (fetchRemoteContent w url) =
            Inl (Error (''Failed to fetch remote content from '' @ url @ '': ''
                        @ error_message e)))
   \<and> (\<forall>r. fetch w url = Inr r \<longrightarrow> \<not> (200 \<le> status r \<and> status r \<le> 299) \<longrightarrow>
          fst (fetchRemoteContent w url) =
            Inl (Error (''Failed to fetch remote content from '' @ url @ '': ''
                        @ ''HTTP '' @ show_nat (status r) @ '': '' @ statusText r)))
   \<and> (\<forall>r e. fetch w url = Inr r \<longrightarrow> 200 \<le> status r \<and> status r \<le> 299 \<longrightarrow> body r = Inl e \<longrightarrow>
          fst (fetchRemoteContent w url) =
            Inl (Error (''Failed to fetch remote content from '' @ url @ '': ''
                        @ error_message e)))
   \<and> (\<forall>r content. fetch w url = Inr r \<longrightarrow> 200 \<le> status r \<and> status r \<le> 299 \<longrightarrow>
          body r = Inr content \<longrightarrow>
          fst (fetchRemoteContent w url) =
            Inr \<lparr>file_path = Some url, file_value = content, file_compiler = False\<rparr>)
   \<and> (isRemoteFile v \<longrightarrow>
          contentPromise cfg w file v = fetchRemoteContent w v
          \<and> task_filePath (marker_task cfg w file attrs v) = v)
   \<and> (\<not> isRemoteFile v \<longrightarrow> Fetch u \<notin> set (snd (contentPromise cfg w file v)))"
proof -
  have fails: "(\<exists>e. fst (fetchRemoteContent w url) = Inl e) \<longleftrightarrow>
        (\<exists>e. fetch w url = Inl e)
        \<or> (\<exists>r. fetch w url = Inr r
               \<and> (\<not> (200 \<le> status r \<and> status r \<le> 299) \<or> (\<exists>e. body r = Inl e)))"
    by (auto simp: fetchRemoteContent_def ok_def split: sum.splits)
  have local: "\<not> isRemoteFile v \<Longrightarrow> Fetch u \<notin> set (snd (contentPromise cfg w file v))"
    by (simp add: contentPromise_def Let_def)
  show ?thesis
    using fails local isRemoteFile_iff [of v] fetchRemoteContent_requests [of w url]
    by (simp add: fetchRemoteContent_def ok_def contentPromise_def marker_task_def)
qed

theorem remote_resolution_witness:
  "isRemoteFile ''https://example.com/not-found.md''
   \<and> \<not> isRemoteFile ''ftp://example.com/a.md''
   \<and> fetchRemoteContent site ''https://example.com/not-found.md''
     = (Inl (Error ''Failed to fetch remote content from https://example.com/not-found.md: HTTP 404: Not Found''),
        [Fetch ''https://example.com/not-found.md''])
   \<and> fetchRemoteContent site ''https://example.com/network-error.md''
     = (Inl (Error ''Failed to fetch remote content from https://example.com/network-error.md: Network timeout''),
        [Fetch ''https://example.com/network-error.md''])
   \<and> fetchRemoteContent site ''https://example.com/table.md''
     = (Inr \<lparr>file_path = Some ''https://example.com/table.md'', file_value = table_text,
              file_compiler = False\<rparr>,
        [Fetch ''https://example.com/table.md''])"
proof -
  note a = remote_resolution [of "''https://example.com/not-found.md''" site
      "''https://example.com/not-found.md''" "plugin_config site no_options" host_file "[]" "[]"]
  note b = remote_resolution [of "''ftp://example.com/a.md''" site
      "''https://example.com/network-error.md''" "plugin_config site no_options" host_file "[]" "[]"]
  note c = remote_resolution [of "''https://example.com/table.md''" site
      "''https://example.com/table.md''" "plugin_config site no_options" host_file "[]" "[]"]
  have f1: "fetch site ''https://example.com/not-found.md''
      = Inr \<lparr>status = 404, statusText = ''Not Found'', body = Inr ''Not Found''\<rparr>"
    by (simp add: site_defs)
  have f2: "fetch site ''https://example.com/network-error.md'' = Inl (Error ''Network timeout'')"
    by (simp add: site_defs)
  have f3: "fetch site ''https://example.com/table.md''
      = Inr \<lparr>status = 200, statusText = ''OK'', body = Inr table_text\<rparr>"
    by (simp add: site_defs)
  have r1: "isRemoteFile ''https://example.com/not-found.md''" using a by simp
  have r2: "\<not> isRemoteFile ''ftp://example.com/a.md''" using b by simp
  have e1: "fst (fetchRemoteContent site ''https://example.com/not-found.md'')
      = Inl (Error ''Failed to fetch remote content from https://example.com/not-found.md: HTTP 404: Not Found'')"
    using a f1 by (simp add: show_nat_404 del: show_nat.simps)
  have e2: "fst (fetchRemoteContent site ''https://example.com/network-error.md'')
      = Inl (Error ''Failed to fetch remote content from https://example.com/network-error.md: Network timeout'')"
    using b f2 by simp
  have e3: "fst (fetchRemoteContent site ''https://example.com/table.md'')
      = Inr \<lparr>file_path = Some ''https://example.com/table.md'', file_value = table_text,
              file_compiler = False\<rparr>"
    using c f3 by simp
  have s1: "snd (fetchRemoteContent site ''https://example.com/not-found.md'')
      = [Fetch ''https://example.com/not-found.md'']" using a by blast
  have s2: "snd (fetchRemoteContent site ''https://example.com/network-error.md'')
      = [Fetch ''https://example.com/network-error.md'']" using b by blast
  have s3: "snd (fetchRemoteContent site ''https://example.com/table.md'')
      = [Fetch ''https://example.com/table.md'']" using c by blast
  show ?thesis
    using r1 r2 e1 e2 e3 s1 s2 s3 by (simp add: prod_eq_iff)
qed

section \<open>The richer grammar for remote markdown\<close>

lemma remote_markdown_without_VFile:
  assumes "\<not> global_VFile w" and "task_isRemoteFile t"
    and "isMarkdownExtension (getFileExtension (task_fileValue t))"
    and "\<not> use_throws cfg"
  shows "on_content cfg w store t f =
    (case parse w (basicProcessor cfg store) (file_value f) of
       Inl e \<Rightarrow>
         (Inl e,
          use_chain cfg [RemarkGfm, RemarkStringify, RemarkStringify]
          @ [fallback_warning (Error ''VFile is not defined'')])
     | Inr ast \<Rightarrow>
         (Inr (Run (basicProcessor cfg store) ast
                 \<lparr>file_path = Some (task_fileValue t), file_value = file_value f,
                    file_compiler = False\<rparr>),
          use_chain cfg [RemarkGfm, RemarkStringify, RemarkStringify]
          @ [fallback_warning (Error ''VFile is not defined'')]))"
  using assms by (simp add: on_content_def Let_def)

lemma remote_markdown_fallback:
  assumes "task_isRemoteFile t"
    and "isMarkdownExtension (getFileExtension (task_fileValue t))"
    and "\<not> use_throws cfg"
    and "(if global_VFile w then parse w (gfmProcessor cfg store) (file_value f)
          else Inl (Error ''VFile is not defined'')) = Inl g"
  shows "on_content cfg w store t f =
    (case parse w (basicProcessor cfg store) (file_value f) of
       Inl e \<Rightarrow>
         (Inl e,
          use_chain cfg [RemarkGfm, RemarkStringify, RemarkStringify] @ [fallback_warning g])
     | Inr ast \<Rightarrow>
         (Inr (Run (basicProcessor cfg store) ast
                 \<lparr>file_path = Some (task_fileValue t), file_value = file_value f,
                    file_compiler = False\<rparr>),
          use_chain cfg [RemarkGfm, RemarkStringify, RemarkStringify] @ [fallback_warning g]))"
  using assms by (simp add: on_content_def Let_def)

text \<open>
  A processor the caller supplies frozen (the processor that is running the
  transform, for one) cannot be extended: the first \<^verbatim>\<open>use\<close> throws, and every
  markdown inclusion ends in the \<^verbatim>\<open>catch\<close> callback.
\<close>

lemma frozen_processor_throws:
  assumes "isMarkdownExtension (getFileExtension (task_fileValue t))"
    and "unified cfg = Some u" and "frozen u"
  shows "on_content cfg w store t f = (Inl frozen_error, [])"
  using assms by (simp add: on_content_def Let_def use_throws_def)

text \<open>
  With a supplied processor the fallback is the processor of the first attempt: it
  has \<^verbatim>\<open>remark-gfm\<close> attached.
\<close>

lemma supplied_fallback_is_the_first_processor:
  "unified cfg = Some u \<Longrightarrow> basicProcessor cfg store = gfmProcessor cfg store"
  by (simp add: basicProcessor_def gfmProcessor_def)

text \<open>
  Claim C8 fails on the code. The first attempt builds a \<^verbatim>\<open>VFile\<close> before it
  parses, and the module binds no \<^verbatim>\<open>VFile\<close>: where the global scope has none
  either, the attempt throws before the richer parse is made. On the small site the
  richer grammar parses the text of \<open>table.md\<close> into a table, and the marker is
  replaced by the paragraph of the basic grammar, with the warning of the fallback.
\<close>

theorem richer_grammar_is_never_reached:
  "parse site (gfmProcessor (plugin_config site no_options) []) table_text
   = Inr (root [table table_text])
   \<and> parse site (basicProcessor (plugin_config site no_options) []) table_text
     = Inr (root [para table_text])
   \<and> mdxSnippet (Suc 0) site no_options
       (root [marker ''https://example.com/table.md'']) host_file
     = Some (Inr (root [Node ''paragraph'' (Str ''Snippet'')
            (Some [MdxJsxAttribute ''file'' (StringValue ''https://example.com/table.md'')])
            (Some [text_node table_text]) None Undefined Undefined
            (Some \<lparr>line = 3, column = 1\<rparr>) []],
          [Fetch ''https://example.com/table.md'',
           ConsoleWarn [S ''GFM processing failed, falling back to basic markdown:'',
                        S ''VFile is not defined'']]))"
  by (simp add: plugin_defs site_defs eval_defs)
end
